theory Spec2Isabelle
  imports Main "HOL-Library.Multiset"
begin

section \<open>JavaScript values and objects\<close>

text \<open>
  Deserialized documents (the OpenAPI spec, the IR) are JSON trees. An object is an
  association list in insertion order; a number is carried symbolically as an integer,
  since the program never computes with schema numbers, it only copies and compares them.
\<close>

datatype json =
    JNull
  | JBool bool
  | JNum int
  | JStr string
  | JArr "json list"
  | JObj "(string \<times> json) list"

text \<open>
  Object spread \<^verbatim>\<open>{ ...a, ...b }\<close>: the keys of \<open>a\<close> keep their position and take the value
  of \<open>b\<close> where \<open>b\<close> has the key; the keys that only \<open>b\<close> has follow.
\<close>

definition spread :: "(string \<times> 'v) list \<Rightarrow> (string \<times> 'v) list \<Rightarrow> (string \<times> 'v) list" where
  "spread a b =
     map (\<lambda>(k, v). (k, case map_of b k of Some w \<Rightarrow> w | None \<Rightarrow> v)) a
     @ filter (\<lambda>(k, v). map_of a k = None) b"

text \<open>\<^verbatim>\<open>delete obj[key]\<close>\<close>

definition delete_key :: "string \<Rightarrow> (string \<times> 'v) list \<Rightarrow> (string \<times> 'v) list" where
  "delete_key key obj = filter (\<lambda>(k, v). k \<noteq> key) obj"

text \<open>\<^verbatim>\<open>String.prototype.split\<close> on a one-character separator; the result is never empty.\<close>

fun split_on :: "char \<Rightarrow> string \<Rightarrow> string list" where
  "split_on c [] = [[]]"
| "split_on c (x # xs) =
     (if x = c then [] # split_on c xs
      else (case split_on c xs of
              [] \<Rightarrow> [[x]]
            | w # ws \<Rightarrow> (x # w) # ws))"

text \<open>Decimal rendering of a natural number, and reading it back.\<close>

definition digit_char :: "nat \<Rightarrow> char" where
  "digit_char d = char_of (48 + d)"

definition digit_val :: "char \<Rightarrow> nat" where
  "digit_val c = of_char c - 48"

fun show_nat :: "nat \<Rightarrow> string" where
  "show_nat n = (if n < 10 then [digit_char n] else show_nat (n div 10) @ [digit_char (n mod 10)])"

declare show_nat.simps [simp del]

definition read_nat :: "string \<Rightarrow> nat" where
  "read_nat s = foldl (\<lambda>a c. 10 * a + digit_val c) 0 s"

definition is_digit :: "char \<Rightarrow> bool" where
  "is_digit c = (48 \<le> (of_char c :: nat) \<and> (of_char c :: nat) \<le> 57)"

text \<open>
  The own enumerable properties that a spread copies out of a value: the entries of an
  object, the indexed elements of an array or of a string, nothing for the other values.
\<close>

definition own_entries :: "json \<Rightarrow> (string \<times> json) list" where
  "own_entries v =
     (case v of
        JObj kvs \<Rightarrow> kvs
      | JArr xs \<Rightarrow> map (\<lambda>i. (show_nat i, xs ! i)) [0 ..< length xs]
      | JStr s \<Rightarrow> map (\<lambda>i. (show_nat i, JStr [s ! i])) [0 ..< length s]
      | _ \<Rightarrow> [])"

section \<open>Ref resolver\<close>

datatype error =
    RefNotFound string
  | TypeError string
  | OutOfFuel

text \<open>
  Modelled from the spec: \<^verbatim>\<open>resolveRef\<close> of \<^verbatim>\<open>utils/ref\<close> is not part of the sources at hand.
  The spec (4.A) has it return the node at the JSON Pointer path of \<^verbatim>\<open>$ref\<close> in the root
  document, fail with \<^verbatim>\<open>RefNotFound\<close> when a segment is missing, and decode each segment
  as RFC 6901 says (\<^verbatim>\<open>~1\<close> is \<^verbatim>\<open>/\<close>, \<^verbatim>\<open>~0\<close> is \<^verbatim>\<open>~\<close>).
\<close>

fun decode_segment :: "string \<Rightarrow> string" where
  "decode_segment [] = []"
| "decode_segment [c] = [c]"
| "decode_segment (c # d # cs) =
     (if c = CHR ''~'' \<and> d = CHR ''1'' then CHR ''/'' # decode_segment cs
      else if c = CHR ''~'' \<and> d = CHR ''0'' then CHR ''~'' # decode_segment cs
      else c # decode_segment (d # cs))"

definition jsonPointerToPath :: "string \<Rightarrow> string list" where
  "jsonPointerToPath r =
     map decode_segment
       (tl (split_on (CHR ''/'')
              (case r of [] \<Rightarrow> [] | c # cs \<Rightarrow> if c = CHR ''#'' then cs else r)))"

fun resolve_path :: "string list \<Rightarrow> json \<Rightarrow> json option" where
  "resolve_path [] v = Some v"
| "resolve_path (p # ps) (JObj kvs) =
     (case map_of kvs p of None \<Rightarrow> None | Some v \<Rightarrow> resolve_path ps v)"
| "resolve_path (p # ps) (JArr xs) =
     (if p \<noteq> [] \<and> list_all is_digit p \<and> read_nat p < length xs
      then resolve_path ps (xs ! read_nat p) else None)"
| "resolve_path (p # ps) _ = None"

definition resolveRef :: "string \<Rightarrow> json \<Rightarrow> error + json" where
  "resolveRef r root =
     (case resolve_path (jsonPointerToPath r) root of
        None \<Rightarrow> Inl (RefNotFound r)
      | Some v \<Rightarrow> Inr v)"

section \<open>The context: files, event bus, dereference\<close>

datatype StringCase = CamelCase | PascalCase | SnakeCase | ScreamingSnakeCase | Preserve

text \<open>The argument of \<^verbatim>\<open>createFile\<close>.\<close>

record ContextFile =
  cf_exportFromIndex :: "bool option"
  cf_id :: string
  cf_identifierCase :: "StringCase option"
  cf_path :: string

text \<open>
  \<^verbatim>\<open>TypeScriptFile\<close> is declared outside the sources at hand; a file is what its
  constructor receives.
\<close>

record TypeScriptFile =
  tf_dir :: string
  tf_exportFromIndex :: "bool option"
  tf_id :: string
  tf_identifierCase :: "StringCase option"
  tf_name :: string

datatype event = After | Before | Operation | Parameter | RequestBody | Schema | Server

text \<open>
  A thrown JavaScript value is an \<^verbatim>\<open>Error\<close> object or anything else. Of an \<^verbatim>\<open>Error\<close> the
  model keeps the message. Of any other value only \<^verbatim>\<open>String(value)\<close> is ever used, and
  that conversion either gives a string or throws in its turn: a \<^verbatim>\<open>TypeError\<close> for a value
  that cannot be converted (\<^verbatim>\<open>Object.create(null)\<close>), or whatever the value's own
  \<^verbatim>\<open>toString\<close> throws.
\<close>

datatype js_error = JsError string

datatype thrown =
    ThrownError js_error
  | ThrownOther string
  | ThrownUnconvertible thrown




text \<open>
  A callback runs on the payload and on everything it can change (\<open>'w\<close>: the files, the
  plugin's own state). It returns normally (\<open>None\<close>) or throws; either way the world is
  left as the callback made it. Awaiting a callback before the next one is sequencing.
\<close>

record ('a, 'w) ListenerWithMeta =
  callbackFn :: "'a \<Rightarrow> 'w \<Rightarrow> thrown option \<times> 'w"
  pluginName :: string

record ('a, 'w) IRContext =
  config_output_path :: string
  files :: "string \<rightharpoonup> TypeScriptFile"
  listeners :: "event \<Rightarrow> ('a, 'w) ListenerWithMeta list option"
  spec :: json




text \<open>
  \<^verbatim>\<open>createFile\<close>. \<^verbatim>\<open>path.resolve\<close> belongs to the platform and is a parameter: it receives
  the output root and the directory segments.
\<close>

definition createFile ::
  "(string \<Rightarrow> string list \<Rightarrow> string) \<Rightarrow> ContextFile \<Rightarrow> ('a, 'w) IRContext
   \<Rightarrow> TypeScriptFile \<times> ('a, 'w) IRContext" where
  "createFile path_resolve file ctx =
     (let outputParts = split_on (CHR ''/'') (cf_path file);
          outputDir = path_resolve (config_output_path ctx) (butlast outputParts);
          createdFile = \<lparr> tf_dir = outputDir,
                          tf_exportFromIndex = cf_exportFromIndex file,
                          tf_id = cf_id file,
                          tf_identifierCase = cf_identifierCase file,
                          tf_name = last outputParts @ ''.ts'' \<rparr>
      in (createdFile, ctx \<lparr> files := (files ctx)(cf_id file \<mapsto> createdFile) \<rparr>))"

text \<open>\<^verbatim>\<open>file({ id })\<close>\<close>

definition file_of :: "('a, 'w) IRContext \<Rightarrow> string \<Rightarrow> TypeScriptFile option" where
  "file_of ctx i = files ctx i"

text \<open>
  \<^verbatim>\<open>dereference\<close>: the holder is an object that has a string \<^verbatim>\<open>$ref\<close>. The function builds
  a new object; neither the holder nor the spec is written to, which the model shows by
  returning the new object only.
\<close>

definition dereference :: "('a, 'w) IRContext \<Rightarrow> (string \<times> json) list \<Rightarrow> error + (string \<times> json) list" where
  "dereference ctx schema =
     (case map_of schema ''$ref'' of
        Some (JStr r) \<Rightarrow>
          (case resolveRef r (spec ctx) of
             Inl e \<Rightarrow> Inl e
           | Inr resolved \<Rightarrow> Inr (delete_key ''$ref'' (spread schema (own_entries resolved))))
      | _ \<Rightarrow> Inl (TypeError ''$ref''))"

section \<open>The IR: schemas, parameters, operations\<close>

text \<open>
  The IR types are declared outside the sources at hand; the fields below are the ones
  the emitter reads. A schema is an object of optional fields, as in the program: the
  scalar fields form a record, the two fields that hold schemas again make the datatype.
  \<^verbatim>\<open>properties\<close> is in insertion order, the order in which \<^verbatim>\<open>for ... in\<close> visits it.
\<close>

datatype schema_type =
    TArray | TBoolean | TEnum | TInteger | TNever | TNull | TNumber
  | TObject | TString | TTuple | TUndefined | TUnknown | TVoid

datatype logical_operator = LAnd | LOr

datatype access_scope = ScopeRead | ScopeWrite

record schema_attrs =
  sa_ref :: "string option"
  sa_type :: "schema_type option"
  sa_logicalOperator :: "logical_operator option"
  sa_required :: "string list option"
  sa_accessScope :: "access_scope option"
  sa_default :: "json option"
  sa_description :: "string option"
  sa_format :: "string option"
  sa_const :: "json option"
  sa_minItems :: "int option"
  sa_maxItems :: "int option"
  sa_minLength :: "int option"
  sa_maxLength :: "int option"
  sa_pattern :: "string option"
  sa_minimum :: "int option"
  sa_maximum :: "int option"
  sa_exclusiveMinimum :: "int option"
  sa_exclusiveMaximum :: "int option"

datatype schema =
  SchemaObject (attrs: schema_attrs) (items: "schema list option")
    (properties: "(string \<times> schema) list option")

text \<open>The schema with no field set, \<^verbatim>\<open>{}\<close>.\<close>

definition no_attrs :: schema_attrs where
  "no_attrs =
     \<lparr> sa_ref = None, sa_type = None, sa_logicalOperator = None, sa_required = None,
       sa_accessScope = None, sa_default = None, sa_description = None, sa_format = None,
       sa_const = None, sa_minItems = None, sa_maxItems = None, sa_minLength = None,
       sa_maxLength = None, sa_pattern = None, sa_minimum = None, sa_maximum = None,
       sa_exclusiveMinimum = None, sa_exclusiveMaximum = None \<rparr>"

text \<open>\<^verbatim>\<open>{ type: t }\<close> and \<^verbatim>\<open>{ $ref: r }\<close>\<close>

definition schema_of_type :: "schema_type \<Rightarrow> schema" where
  "schema_of_type t = SchemaObject (no_attrs \<lparr> sa_type := Some t \<rparr>) None None"

definition schema_of_ref :: "string \<Rightarrow> schema" where
  "schema_of_ref r = SchemaObject (no_attrs \<lparr> sa_ref := Some r \<rparr>) None None"

text \<open>A string used as a condition is true when it is there and not empty.\<close>

definition truthy :: "string option \<Rightarrow> bool" where
  "truthy s = (case s of None \<Rightarrow> False | Some v \<Rightarrow> v \<noteq> [])"

datatype location = Cookie | Header | Path | Query

record ParameterObject =
  p_name :: string
  p_location :: location
  p_required :: "bool option"
  p_schema :: schema

record ParametersObject =
  po_cookie :: "(string \<times> ParameterObject) list option"
  po_header :: "(string \<times> ParameterObject) list option"
  po_path :: "(string \<times> ParameterObject) list option"
  po_query :: "(string \<times> ParameterObject) list option"

record RequestBodyObject =
  rb_required :: "bool option"
  rb_schema :: schema

record OperationObject =
  op_id :: string
  op_body :: "RequestBodyObject option"
  op_parameters :: "ParametersObject option"
  op_responses :: "json option"

section \<open>The emitted syntax tree\<close>

text \<open>
  The \<^verbatim>\<open>compiler\<close> module builds TypeScript syntax nodes; each of its constructors that the
  emitter calls is a constructor here. A function name given as a string is an identifier.
\<close>

datatype property_name =
    StringLiteralName string
  | NumericLiteralName string
  | PlainName string

datatype expr =
    Identifier string
  | PropertyAccessExpression expr string
  | CallExpression expr "expr list"
  | ArrayLiteralExpression "expr list"
  | ObjectLiteralExpression "(property_name \<times> expr) list"
  | ArrowFunctionReturning expr
  | StringLiteral string
  | RegularExpressionLiteral string
  | OtsBoolean bool
  | OtsNumber int
  | OtsString string
  | ValueToExpression json

text \<open>\<^verbatim>\<open>compiler.constVariable\<close>\<close>

record ConstVariable =
  cv_comment :: "string list option"
  cv_exportConst :: bool
  cv_expression :: expr
  cv_name :: string
  cv_typeName :: "expr option"

definition zIdentifier :: expr where
  "zIdentifier = Identifier ''z''"

text \<open>\<^verbatim>\<open>z.name(parameters)\<close> and \<^verbatim>\<open>expression.name(parameters)\<close>\<close>

definition z_call :: "string \<Rightarrow> expr list \<Rightarrow> expr" where
  "z_call name parameters = CallExpression (PropertyAccessExpression zIdentifier name) parameters"

definition method_call :: "expr \<Rightarrow> string \<Rightarrow> expr list \<Rightarrow> expr" where
  "method_call expression name parameters =
     CallExpression (PropertyAccessExpression expression name) parameters"

section \<open>The plugin, its state and its file\<close>

text \<open>
  What the emitter reads of the plugin instance: the configuration flags, the naming of
  each identifier family (the name transformer followed by the case conversion, applied to
  the base name), the two helpers that are outside the sources at hand
  (\<^verbatim>\<open>createSchemaComment\<close>, \<^verbatim>\<open>operationResponsesMap\<close>), and the components of the IR.
\<close>

record Plugin =
  config_comments :: bool
  config_metadata :: bool
  config_requests_enabled :: bool
  config_responses_enabled :: bool
  config_definitions_name :: "string \<Rightarrow> string"
  config_requests_name :: "string \<Rightarrow> string"
  config_responses_name :: "string \<Rightarrow> string"
  createSchemaComment :: "schema \<Rightarrow> string list option"
  operationResponsesMap :: "OperationObject \<Rightarrow> schema option"
  ir_components :: "(string \<times> schema) list"

text \<open>
  The mutable state an emission runs on: the \<^verbatim>\<open>State\<close> of the plugin call (the set of refs
  on the traversal stack and the flag) and the zod file (the identifiers of its
  \<^verbatim>\<open>value\<close> namespace, as pairs of ref and name in creation order, and its nodes).
  \<^verbatim>\<open>nameCase\<close> and \<^verbatim>\<open>nameTransformer\<close> of the state never change and are read from the
  plugin.
\<close>

record emit_state =
  circularReferenceTracker :: "string set"
  hasCircularReference :: bool
  identifiers :: "(string \<times> string) list"
  nodes :: "ConstVariable list"

record Identifier =
  id_name :: string
  id_created :: bool

text \<open>
  Modelled from the spec: the Identifier Service (\<^verbatim>\<open>file.identifier\<close>) is outside the
  sources at hand. The spec (4.B): an existing mapping for the ref is returned with
  \<^verbatim>\<open>created = false\<close>; else with \<^verbatim>\<open>create\<close> a base name is derived from the last segment of
  the ref, transformed, made unique in the file by a numeric suffix, recorded and returned
  with \<^verbatim>\<open>created = true\<close>; else the empty name is returned with \<^verbatim>\<open>created = false\<close>.
\<close>

definition uniqueName :: "string list \<Rightarrow> string \<Rightarrow> string" where
  "uniqueName used base =
     (case find (\<lambda>c. c \<notin> set used)
             (base # map (\<lambda>i. base @ show_nat i) [2 ..< length used + 3]) of
        Some c \<Rightarrow> c
      | None \<Rightarrow> base)"

definition file_identifier ::
  "(string \<Rightarrow> string) \<Rightarrow> string \<Rightarrow> bool \<Rightarrow> emit_state \<Rightarrow> Identifier \<times> emit_state" where
  "file_identifier transform r create st =
     (case map_of (identifiers st) r of
        Some n \<Rightarrow> (\<lparr> id_name = n, id_created = False \<rparr>, st)
      | None \<Rightarrow>
          if create
          then (let n = uniqueName (map snd (identifiers st))
                          (transform (last (split_on (CHR ''/'') r)))
                in (\<lparr> id_name = n, id_created = True \<rparr>,
                    st \<lparr> identifiers := identifiers st @ [(r, n)] \<rparr>))
          else (\<lparr> id_name = [], id_created = False \<rparr>, st))"

text \<open>\<^verbatim>\<open>file.add(statement)\<close>\<close>

definition file_add :: "ConstVariable \<Rightarrow> emit_state \<Rightarrow> emit_state" where
  "file_add statement st = st \<lparr> nodes := nodes st @ [statement] \<rparr>"

text \<open>
  Modelled from the spec: \<^verbatim>\<open>resolveIrRef\<close> resolves against the IR, whose components the
  spec (3) gives as a mapping from the fully qualified ref to the schema; a ref that is
  not there fails with \<^verbatim>\<open>RefNotFound\<close>.
\<close>

definition resolveIrRef :: "Plugin \<Rightarrow> string \<Rightarrow> error + schema" where
  "resolveIrRef plugin r =
     (case map_of (ir_components plugin) r of
        None \<Rightarrow> Inl (RefNotFound r)
      | Some s \<Rightarrow> Inr s)"

text \<open>
  Modelled from the spec: \<^verbatim>\<open>deduplicateSchema\<close> is outside the sources at hand; the spec
  (4.I) says that the items are deduplicated. The first of equal items is kept.
\<close>

definition deduplicateSchema :: "schema \<Rightarrow> schema" where
  "deduplicateSchema schema =
     (case items schema of
        None \<Rightarrow> schema
      | Some xs \<Rightarrow> SchemaObject (attrs schema) (Some (rev (remdups (rev xs)))) (properties schema))"

text \<open>
  Modelled from the spec: \<^verbatim>\<open>hasParameterGroupObjectRequired\<close> is outside the sources at
  hand; the spec (4.I) has a group required when any of its members is.
\<close>

definition hasParameterGroupObjectRequired :: "(string \<times> ParameterObject) list option \<Rightarrow> bool" where
  "hasParameterGroupObjectRequired parameterGroup =
     (case parameterGroup of
        None \<Rightarrow> False
      | Some ps \<Rightarrow> list_ex (\<lambda>(k, p). p_required p = Some True) ps)"

section \<open>The schema emitter\<close>

abbreviation schema_ref :: "schema \<Rightarrow> string option" where
  "schema_ref schema \<equiv> sa_ref (attrs schema)"

abbreviation schema_type :: "schema \<Rightarrow> schema_type option" where
  "schema_type schema \<equiv> sa_type (attrs schema)"

text \<open>\<^verbatim>\<open>numberParameter\<close>: a JSON value is never a bigint, so three of the four types remain.\<close>

definition numberParameter :: "bool \<Rightarrow> json \<Rightarrow> expr" where
  "numberParameter isBigInt v =
     (let expression = ValueToExpression v
      in if isBigInt \<and> (case v of JNum _ \<Rightarrow> True | JStr _ \<Rightarrow> True | JBool _ \<Rightarrow> True | _ \<Rightarrow> False)
         then CallExpression (Identifier ''BigInt'') [expression]
         else expression)"

definition unknownTypeToZodSchema :: expr where
  "unknownTypeToZodSchema = z_call ''unknown'' []"

text \<open>
  The length refinements shared by arrays (\<^verbatim>\<open>minItems\<close>, \<^verbatim>\<open>maxItems\<close>) and strings
  (\<^verbatim>\<open>minLength\<close>, \<^verbatim>\<open>maxLength\<close>): \<^verbatim>\<open>.length\<close> when both are set and equal, else \<^verbatim>\<open>.min\<close> and
  \<^verbatim>\<open>.max\<close> each on its own.
\<close>

definition lengthRefinements :: "int option \<Rightarrow> int option \<Rightarrow> expr \<Rightarrow> expr" where
  "lengthRefinements mn mx expression =
     (if mn = mx \<and> mn \<noteq> None
      then (case mn of
              Some v \<Rightarrow> method_call expression ''length'' [ValueToExpression (JNum v)]
            | None \<Rightarrow> expression)
      else (let e1 = (case mn of
                        Some v \<Rightarrow> method_call expression ''min'' [ValueToExpression (JNum v)]
                      | None \<Rightarrow> expression)
            in case mx of
                 Some v \<Rightarrow> method_call e1 ''max'' [ValueToExpression (JNum v)]
               | None \<Rightarrow> e1))"

definition booleanTypeToZodSchema :: "schema \<Rightarrow> expr" where
  "booleanTypeToZodSchema schema =
     (case sa_const (attrs schema) of
        Some (JBool b) \<Rightarrow> z_call ''literal'' [OtsBoolean b]
      | _ \<Rightarrow> z_call ''boolean'' [])"

text \<open>The loop of \<^verbatim>\<open>enumTypeToZodSchema\<close>: the members and the nullable flag.\<close>

fun enumMembers :: "schema list \<Rightarrow> expr list \<times> bool" where
  "enumMembers [] = ([], False)"
| "enumMembers (item # rest) =
     (let (members, isNullable) = enumMembers rest
      in case (schema_type item, sa_const (attrs item)) of
           (Some TString, Some (JStr c)) \<Rightarrow> (StringLiteral c # members, isNullable)
         | (t, c) \<Rightarrow> (members, isNullable \<or> t = Some TNull \<or> c = Some JNull))"

definition enumTypeToZodSchema :: "schema \<Rightarrow> expr" where
  "enumTypeToZodSchema schema =
     (let (members, isNullable) =
            enumMembers (case items schema of None \<Rightarrow> [] | Some xs \<Rightarrow> xs)
      in if members = [] then unknownTypeToZodSchema
         else (let enumExpression = z_call ''enum'' [ArrayLiteralExpression members]
               in if isNullable then method_call enumExpression ''nullable'' []
                  else enumExpression))"

definition numberTypeToZodSchema :: "schema \<Rightarrow> expr" where
  "numberTypeToZodSchema schema =
     (let isBigInt = (schema_type schema = Some TInteger
                      \<and> sa_format (attrs schema) = Some ''int64'')
      in case sa_const (attrs schema) of
           Some (JNum c) \<Rightarrow> z_call ''literal'' [OtsNumber c]
         | _ \<Rightarrow>
          (let e0 = CallExpression
                      (if isBigInt
                       then PropertyAccessExpression
                              (PropertyAccessExpression zIdentifier ''coerce'') ''bigint''
                       else PropertyAccessExpression zIdentifier ''number'') [];
               e1 = (if \<not> isBigInt \<and> schema_type schema = Some TInteger
                     then method_call e0 ''int'' [] else e0);
               e2 = (case sa_exclusiveMinimum (attrs schema) of
                       Some v \<Rightarrow> method_call e1 ''gt'' [numberParameter isBigInt (JNum v)]
                     | None \<Rightarrow>
                        (case sa_minimum (attrs schema) of
                           Some v \<Rightarrow> method_call e1 ''gte'' [numberParameter isBigInt (JNum v)]
                         | None \<Rightarrow> e1))
           in case sa_exclusiveMaximum (attrs schema) of
                Some v \<Rightarrow> method_call e2 ''lt'' [numberParameter isBigInt (JNum v)]
              | None \<Rightarrow>
                 (case sa_maximum (attrs schema) of
                    Some v \<Rightarrow> method_call e2 ''lte'' [numberParameter isBigInt (JNum v)]
                  | None \<Rightarrow> e2)))"

definition stringTypeToZodSchema :: "schema \<Rightarrow> expr" where
  "stringTypeToZodSchema schema =
     (case sa_const (attrs schema) of
        Some (JStr c) \<Rightarrow> z_call ''literal'' [OtsString c]
      | _ \<Rightarrow>
       (let e0 = z_call ''string'' [];
            e1 = (case sa_format (attrs schema) of
                    None \<Rightarrow> e0
                  | Some f \<Rightarrow>
                      if f = ''date-time'' then method_call e0 ''datetime'' []
                      else if f = ''ipv4'' \<or> f = ''ipv6'' then method_call e0 ''ip'' []
                      else if f = ''uri'' then method_call e0 ''url'' []
                      else if f = ''date'' \<or> f = ''email'' \<or> f = ''time'' \<or> f = ''uuid''
                      then method_call e0 f []
                      else e0);
            e2 = lengthRefinements (sa_minLength (attrs schema)) (sa_maxLength (attrs schema)) e1
        in if truthy (sa_pattern (attrs schema))
           then (case sa_pattern (attrs schema) of
                   Some pat \<Rightarrow> method_call e2 ''regex'' [RegularExpressionLiteral pat]
                 | None \<Rightarrow> e2)
           else e2))"

text \<open>
  Modelled from the spec: \<^verbatim>\<open>numberRegExp\<close> is a constant outside the sources at hand; the
  spec (4.I) speaks of numeric-like keys: an optional minus sign, digits, and optionally a
  point and digits.
\<close>

definition all_digits :: "string \<Rightarrow> bool" where
  "all_digits s = (s \<noteq> [] \<and> list_all is_digit s)"

definition numberRegExp_test :: "string \<Rightarrow> bool" where
  "numberRegExp_test name =
     (let body = (case name of [] \<Rightarrow> [] | c # cs \<Rightarrow> if c = CHR ''-'' then cs else name);
          whole = takeWhile (\<lambda>c. c \<noteq> CHR ''.'') body;
          rest = dropWhile (\<lambda>c. c \<noteq> CHR ''.'') body
      in all_digits whole \<and> (rest = [] \<or> all_digits (tl rest)))"

definition is_word_char :: "char \<Rightarrow> bool" where
  "is_word_char c =
     (let n = (of_char c :: nat)
      in (48 \<le> n \<and> n \<le> 57) \<or> (65 \<le> n \<and> n \<le> 90) \<or> (97 \<le> n \<and> n \<le> 122) \<or> n = 95)"

text \<open>The property key of \<^verbatim>\<open>objectTypeToZodSchema\<close>.\<close>

definition propertyName :: "string \<Rightarrow> property_name" where
  "propertyName name =
     (let quote = CHR 0x27;
          propertyName0 =
            (if numberRegExp_test name
             then (if name \<noteq> [] \<and> hd name = CHR ''-''
                   then StringLiteralName name else NumericLiteralName name)
             else PlainName name)
      in if ((name \<noteq> [] \<and> is_digit (hd name) \<and> list_ex (\<lambda>c. \<not> is_digit c) name)
             \<or> list_ex (\<lambda>c. \<not> is_word_char c) name)
            \<and> \<not> (name \<noteq> [] \<and> hd name = quote)
            \<and> \<not> (name \<noteq> [] \<and> last name = quote)
         then PlainName ([quote] @ name @ [quote])
         else propertyName0)"

text \<open>
  The emitter is recursive through the refs of the IR, which may form cycles, so
  \<^verbatim>\<open>schemaToZodSchema\<close> takes fuel: one unit per nested call. The functions it calls
  receive the recursive call as \<open>rec\<close>: \<open>rec ref identifier optional schema state\<close>.
\<close>

type_synonym emitter =
  "string option \<Rightarrow> Identifier option \<Rightarrow> bool \<Rightarrow> schema \<Rightarrow> emit_state
   \<Rightarrow> error + (expr \<times> emit_state)"

text \<open>\<^verbatim>\<open>items.map((item) => schemaToZodSchema({ plugin, schema: item, state }))\<close>\<close>

fun itemsToZodSchemas ::
  "emitter \<Rightarrow> schema list \<Rightarrow> emit_state \<Rightarrow> error + (expr list \<times> emit_state)" where
  "itemsToZodSchemas rec [] st = Inr ([], st)"
| "itemsToZodSchemas rec (item # rest) st =
     (case rec None None False item st of
        Inl e \<Rightarrow> Inl e
      | Inr (x, st1) \<Rightarrow>
          (case itemsToZodSchemas rec rest st1 of
             Inl e \<Rightarrow> Inl e
           | Inr (xs, st2) \<Rightarrow> Inr (x # xs, st2)))"

definition arrayTypeToZodSchema ::
  "emitter \<Rightarrow> schema \<Rightarrow> emit_state \<Rightarrow> error + (expr \<times> emit_state)" where
  "arrayTypeToZodSchema rec schema st =
     (case items schema of
        None \<Rightarrow>
          Inr (lengthRefinements (sa_minItems (attrs schema)) (sa_maxItems (attrs schema))
                 (z_call ''array'' [unknownTypeToZodSchema]), st)
      | Some _ \<Rightarrow>
          (let schema1 = deduplicateSchema schema
           in case items schema1 of
                None \<Rightarrow> Inl (TypeError ''items'')
              | Some its \<Rightarrow>
                  (case itemsToZodSchemas rec its st of
                     Inl e \<Rightarrow> Inl e
                   | Inr (itemExpressions, st1) \<Rightarrow>
                       Inr (lengthRefinements (sa_minItems (attrs schema1))
                              (sa_maxItems (attrs schema1))
                              (if length itemExpressions = 1
                               then z_call ''array'' itemExpressions
                               else z_call ''array''
                                      [z_call ''union'' [ArrayLiteralExpression itemExpressions]]),
                            st1))))"

text \<open>The loop of \<^verbatim>\<open>objectTypeToZodSchema\<close> over the properties.\<close>

fun propertiesToZodSchemas ::
  "emitter \<Rightarrow> string list \<Rightarrow> (string \<times> schema) list \<Rightarrow> emit_state
   \<Rightarrow> error + ((property_name \<times> expr) list \<times> emit_state)" where
  "propertiesToZodSchemas rec required [] st = Inr ([], st)"
| "propertiesToZodSchemas rec required ((name, property) # rest) st =
     (let isRequired = (name \<in> set required)
      in case rec None None (\<not> isRequired) property st of
           Inl e \<Rightarrow> Inl e
         | Inr (propertyExpression, st1) \<Rightarrow>
             (case propertiesToZodSchemas rec required rest st1 of
                Inl e \<Rightarrow> Inl e
              | Inr (ps, st2) \<Rightarrow> Inr ((propertyName name, propertyExpression) # ps, st2)))"

definition objectTypeToZodSchema ::
  "emitter \<Rightarrow> schema \<Rightarrow> emit_state \<Rightarrow> error + (string \<times> expr \<times> emit_state)" where
  "objectTypeToZodSchema rec schema st =
     (let required = (case sa_required (attrs schema) of None \<Rightarrow> [] | Some r \<Rightarrow> r)
      in case propertiesToZodSchemas rec required
                (case properties schema of None \<Rightarrow> [] | Some ps \<Rightarrow> ps) st of
           Inl e \<Rightarrow> Inl e
         | Inr (ps, st1) \<Rightarrow>
             Inr (''AnyZodObject'', z_call ''object'' [ObjectLiteralExpression ps], st1))"

definition tupleTypeToZodSchema ::
  "emitter \<Rightarrow> schema \<Rightarrow> emit_state \<Rightarrow> error + (expr \<times> emit_state)" where
  "tupleTypeToZodSchema rec schema st =
     (case sa_const (attrs schema) of
        Some (JArr vs) \<Rightarrow>
          Inr (z_call ''tuple''
                 [ArrayLiteralExpression
                    (map (\<lambda>v. z_call ''literal'' [ValueToExpression v]) vs)], st)
      | _ \<Rightarrow>
          (case itemsToZodSchemas rec (case items schema of None \<Rightarrow> [] | Some xs \<Rightarrow> xs) st of
             Inl e \<Rightarrow> Inl e
           | Inr (tupleElements, st1) \<Rightarrow>
               Inr (z_call ''tuple'' [ArrayLiteralExpression tupleElements], st1)))"

text \<open>
  \<^verbatim>\<open>schemaTypeToZodSchema\<close>: the result is \<^verbatim>\<open>anyType\<close>, the expression and the state. The
  \<^verbatim>\<open>switch\<close> has no default, so on a schema without a type the caller would read a field of
  \<^verbatim>\<open>undefined\<close>.
\<close>

definition schemaTypeToZodSchema ::
  "emitter \<Rightarrow> schema \<Rightarrow> emit_state \<Rightarrow> error + (string option \<times> expr \<times> emit_state)" where
  "schemaTypeToZodSchema rec schema st =
     (case schema_type schema of
        None \<Rightarrow> Inl (TypeError ''anyType'')
      | Some TArray \<Rightarrow>
          (case arrayTypeToZodSchema rec schema st of
             Inl e \<Rightarrow> Inl e
           | Inr (expression, st1) \<Rightarrow> Inr (None, expression, st1))
      | Some TBoolean \<Rightarrow> Inr (None, booleanTypeToZodSchema schema, st)
      | Some TEnum \<Rightarrow> Inr (None, enumTypeToZodSchema schema, st)
      | Some TInteger \<Rightarrow> Inr (None, numberTypeToZodSchema schema, st)
      | Some TNumber \<Rightarrow> Inr (None, numberTypeToZodSchema schema, st)
      | Some TNever \<Rightarrow> Inr (None, z_call ''never'' [], st)
      | Some TNull \<Rightarrow> Inr (None, z_call ''null'' [], st)
      | Some TObject \<Rightarrow>
          (case objectTypeToZodSchema rec schema st of
             Inl e \<Rightarrow> Inl e
           | Inr (anyType, expression, st1) \<Rightarrow> Inr (Some anyType, expression, st1))
      | Some TString \<Rightarrow> Inr (None, stringTypeToZodSchema schema, st)
      | Some TTuple \<Rightarrow>
          (case tupleTypeToZodSchema rec schema st of
             Inl e \<Rightarrow> Inl e
           | Inr (expression, st1) \<Rightarrow> Inr (None, expression, st1))
      | Some TUndefined \<Rightarrow> Inr (None, z_call ''undefined'' [], st)
      | Some TUnknown \<Rightarrow> Inr (None, unknownTypeToZodSchema, st)
      | Some TVoid \<Rightarrow> Inr (None, z_call ''void'' [], st))"

text \<open>
  The parts of \<^verbatim>\<open>schemaToZodSchema\<close>, in the order of its body. First the entry: a ref
  argument is put on the traversal stack, and its identifier is created unless the caller
  passed one.
\<close>

definition enter ::
  "Plugin \<Rightarrow> string option \<Rightarrow> Identifier option \<Rightarrow> emit_state
   \<Rightarrow> Identifier option \<times> emit_state" where
  "enter plugin ref ident st =
     (case ref of
        None \<Rightarrow> (ident, st)
      | Some r \<Rightarrow>
          if r = [] then (ident, st)
          else (let st1 = st \<lparr> circularReferenceTracker :=
                                insert r (circularReferenceTracker st) \<rparr>
                in case ident of
                     Some i \<Rightarrow> (Some i, st1)
                   | None \<Rightarrow>
                       (let (i, st2) = file_identifier (config_definitions_name plugin) r True st1
                        in (Some i, st2))))"

text \<open>The expression that stands for a ref whose identifier has a name.\<close>

definition referTo :: "bool \<Rightarrow> string \<Rightarrow> emit_state \<Rightarrow> expr \<times> emit_state" where
  "referTo isCircularReference name st =
     (if isCircularReference
      then (z_call ''lazy'' [ArrowFunctionReturning (Identifier name)],
            st \<lparr> hasCircularReference := True \<rparr>)
      else (Identifier name, st))"

text \<open>The branch of a schema that has a \<^verbatim>\<open>$ref\<close>.\<close>

definition refToZodSchema ::
  "emitter \<Rightarrow> Plugin \<Rightarrow> string \<Rightarrow> emit_state \<Rightarrow> error + (expr \<times> emit_state)" where
  "refToZodSchema rec plugin r st =
     (let isCircularReference = (r \<in> circularReferenceTracker st);
          identifierRef = fst (file_identifier (config_definitions_name plugin) r False st)
      in if id_name identifierRef = []
         then (case resolveIrRef plugin r of
                 Inl e \<Rightarrow> Inl e
               | Inr ref \<Rightarrow>
                   (case rec (Some r) None False ref st of
                      Inl e \<Rightarrow> Inl e
                    | Inr (expression, st1) \<Rightarrow>
                        (let identifierRef1 =
                               fst (file_identifier (config_definitions_name plugin) r False st1)
                         in if id_name identifierRef1 \<noteq> []
                            then Inr (referTo isCircularReference (id_name identifierRef1) st1)
                            else Inr (expression, st1))))
         else Inr (referTo isCircularReference (id_name identifierRef) st))"

text \<open>The branch of a schema that has a type: the type's expression, then \<^verbatim>\<open>.describe\<close>.\<close>

definition describe :: "Plugin \<Rightarrow> schema \<Rightarrow> expr \<Rightarrow> expr" where
  "describe plugin schema expression =
     (if config_metadata plugin \<and> truthy (sa_description (attrs schema))
      then (case sa_description (attrs schema) of
              Some d \<Rightarrow> method_call expression ''describe'' [StringLiteral d]
            | None \<Rightarrow> expression)
      else expression)"

definition typedToZodSchema ::
  "emitter \<Rightarrow> Plugin \<Rightarrow> schema \<Rightarrow> emit_state
   \<Rightarrow> error + (string option \<times> expr \<times> emit_state)" where
  "typedToZodSchema rec plugin schema st =
     (case schemaTypeToZodSchema rec schema st of
        Inl e \<Rightarrow> Inl e
      | Inr (anyType, expression, st1) \<Rightarrow> Inr (anyType, describe plugin schema expression, st1))"

text \<open>
  The branch of a schema that has items and no type. The schema is replaced by its
  deduplicated form, which the rest of \<^verbatim>\<open>schemaToZodSchema\<close> then reads; reading the first
  item of an empty \<^verbatim>\<open>and\<close> list fails.
\<close>

definition compositeToZodSchema ::
  "emitter \<Rightarrow> schema \<Rightarrow> emit_state \<Rightarrow> error + (expr \<times> schema \<times> emit_state)" where
  "compositeToZodSchema rec schema st =
     (let schema1 = deduplicateSchema schema
      in case items schema1 of
           None \<Rightarrow>
             (case rec None None False schema1 st of
                Inl e \<Rightarrow> Inl e
              | Inr (expression, st1) \<Rightarrow> Inr (expression, schema1, st1))
         | Some its \<Rightarrow>
             (case itemsToZodSchemas rec its st of
                Inl e \<Rightarrow> Inl e
              | Inr (itemTypes, st1) \<Rightarrow>
                  if sa_logicalOperator (attrs schema1) = Some LAnd
                  then (case its of
                          [] \<Rightarrow> Inl (TypeError ''logicalOperator'')
                        | firstSchema # _ \<Rightarrow>
                            if sa_logicalOperator (attrs firstSchema) = Some LOr
                               \<or> (schema_type firstSchema \<noteq> None
                                   \<and> schema_type firstSchema \<noteq> Some TObject)
                            then Inr (z_call ''intersection'' itemTypes, schema1, st1)
                            else (case itemTypes of
                                    [] \<Rightarrow> Inl (TypeError ''and'')
                                  | first # others \<Rightarrow>
                                      Inr (foldl (\<lambda>expression item.
                                                    method_call expression ''and'' [item])
                                             first others, schema1, st1)))
                  else Inr (z_call ''union'' [ArrayLiteralExpression itemTypes], schema1, st1)))"

text \<open>The four branches together: \<^verbatim>\<open>anyType\<close>, the expression, the schema, the state.\<close>

definition emitExpression ::
  "emitter \<Rightarrow> Plugin \<Rightarrow> schema \<Rightarrow> emit_state
   \<Rightarrow> error + (string option \<times> expr \<times> schema \<times> emit_state)" where
  "emitExpression rec plugin schema st =
     (if truthy (schema_ref schema)
      then (case refToZodSchema rec plugin (case schema_ref schema of Some r \<Rightarrow> r | None \<Rightarrow> []) st of
              Inl e \<Rightarrow> Inl e
            | Inr (expression, st1) \<Rightarrow> Inr (None, expression, schema, st1))
      else if schema_type schema \<noteq> None
      then (case typedToZodSchema rec plugin schema st of
              Inl e \<Rightarrow> Inl e
            | Inr (anyType, expression, st1) \<Rightarrow> Inr (anyType, expression, schema, st1))
      else if items schema \<noteq> None
      then (case compositeToZodSchema rec schema st of
              Inl e \<Rightarrow> Inl e
            | Inr (expression, schema1, st1) \<Rightarrow> Inr (None, expression, schema1, st1))
      else Inr (None, unknownTypeToZodSchema, schema, st))"

text \<open>Leaving: the ref argument is taken off the traversal stack.\<close>

definition leave :: "string option \<Rightarrow> emit_state \<Rightarrow> emit_state" where
  "leave ref st =
     (case ref of
        None \<Rightarrow> st
      | Some r \<Rightarrow>
          if r = [] then st
          else st \<lparr> circularReferenceTracker := circularReferenceTracker st - {r} \<rparr>)"

text \<open>
  The modifiers put on the expression after that. Every branch above has produced an
  expression, so the test \<^verbatim>\<open>if (expression)\<close> holds, and so does \<^verbatim>\<open>if (callParameter)\<close>,
  a syntax node.
\<close>

definition readonlyModifier :: "schema \<Rightarrow> expr \<Rightarrow> expr" where
  "readonlyModifier schema expression =
     (if sa_accessScope (attrs schema) = Some ScopeRead
      then method_call expression ''readonly'' [] else expression)"

definition optionalModifier :: "bool \<Rightarrow> expr \<Rightarrow> expr" where
  "optionalModifier optional expression =
     (if optional then method_call expression ''optional'' [] else expression)"

definition defaultModifier :: "schema \<Rightarrow> expr \<Rightarrow> expr" where
  "defaultModifier schema expression =
     (case sa_default (attrs schema) of
        None \<Rightarrow> expression
      | Some v \<Rightarrow>
          (let isBigInt = (schema_type schema = Some TInteger
                           \<and> sa_format (attrs schema) = Some ''int64'')
           in method_call expression ''default'' [numberParameter isBigInt v]))"

definition modifiers :: "schema \<Rightarrow> bool \<Rightarrow> expr \<Rightarrow> expr" where
  "modifiers schema optional expression =
     (let e1 = readonlyModifier schema expression;
          e2 = optionalModifier optional e1
      in defaultModifier schema e2)"

text \<open>The declaration, added to the file when the identifier is newly created.\<close>

definition emitNode ::
  "Plugin \<Rightarrow> Identifier option \<Rightarrow> schema \<Rightarrow> string option \<Rightarrow> expr \<Rightarrow> emit_state \<Rightarrow> emit_state" where
  "emitNode plugin identifier schema anyType expression st =
     (case identifier of
        None \<Rightarrow> st
      | Some i \<Rightarrow>
          if id_name i \<noteq> [] \<and> id_created i
          then file_add
                 \<lparr> cv_comment = (if config_comments plugin
                                  then createSchemaComment plugin schema else None),
                   cv_exportConst = True,
                   cv_expression = expression,
                   cv_name = id_name i,
                   cv_typeName =
                     (if hasCircularReference st
                      then Some (PropertyAccessExpression zIdentifier
                                   (case anyType of
                                      None \<Rightarrow> ''ZodTypeAny''
                                    | Some t \<Rightarrow> if t = [] then ''ZodTypeAny'' else t))
                      else None) \<rparr> st
          else st)"

fun schemaToZodSchema ::
  "nat \<Rightarrow> Plugin \<Rightarrow> string option \<Rightarrow> Identifier option \<Rightarrow> bool \<Rightarrow> schema \<Rightarrow> emit_state
   \<Rightarrow> error + (expr \<times> emit_state)" where
  "schemaToZodSchema 0 plugin ref ident optional schema st = Inl OutOfFuel"
| "schemaToZodSchema (Suc fuel) plugin ref ident optional schema st =
     (let (identifier, st1) = enter plugin ref ident st
      in case emitExpression (schemaToZodSchema fuel plugin) plugin schema st1 of
           Inl e \<Rightarrow> Inl e
         | Inr (anyType, expression0, schema1, st2) \<Rightarrow>
             (let st3 = leave ref st2;
                  expression = modifiers schema1 optional expression0
              in Inr (expression, emitNode plugin identifier schema1 anyType expression st3)))"

section \<open>Operations and the handler\<close>

text \<open>\<^verbatim>\<open>obj[key] = value\<close> on an object in insertion order.\<close>

definition assign :: "string \<Rightarrow> 'v \<Rightarrow> (string \<times> 'v) list \<Rightarrow> (string \<times> 'v) list" where
  "assign k v obj =
     (if map_of obj k = None then obj @ [(k, v)]
      else map (\<lambda>(k', v'). if k' = k then (k', v) else (k', v')) obj)"

text \<open>
  The loop over one parameter group: the properties of the group's object schema, keyed
  by the parameter's name, and the names of the required parameters.
\<close>

definition groupProperties ::
  "(string \<times> ParameterObject) list \<Rightarrow> (string \<times> schema) list \<times> string list" where
  "groupProperties parameterGroup =
     foldl (\<lambda>(propertyProperties, propertyRequired) (key, parameter).
              (assign (p_name parameter) (p_schema parameter) propertyProperties,
               if p_required parameter = Some True
               then propertyRequired @ [p_name parameter] else propertyRequired))
       ([], []) parameterGroup"

text \<open>The schema of one group in the request object: an object schema, or \<^verbatim>\<open>never\<close>.\<close>

definition groupSchema :: "(string \<times> schema) list \<times> string list \<Rightarrow> schema" where
  "groupSchema g =
     (if fst g \<noteq> []
      then SchemaObject (no_attrs \<lparr> sa_type := Some TObject, sa_required := Some (snd g) \<rparr>)
             None (Some (fst g))
      else schema_of_type TNever)"

text \<open>
  The names pushed to \<^verbatim>\<open>requiredProperties\<close>, in the order of the program. The test
  under \<^verbatim>\<open>operation.parameters.header\<close> reads the path group.
\<close>

definition requiredProperties :: "OperationObject \<Rightarrow> string list" where
  "requiredProperties operation =
     (case op_body operation of
        None \<Rightarrow> []
      | Some body \<Rightarrow> if rb_required body = Some True then [''body''] else [])
     @ (case op_parameters operation of
          None \<Rightarrow> []
        | Some parameters \<Rightarrow>
            (if po_header parameters \<noteq> None
                \<and> hasParameterGroupObjectRequired (po_path parameters)
             then [''headers''] else [])
            @ (if po_path parameters \<noteq> None
                  \<and> hasParameterGroupObjectRequired (po_path parameters)
               then [''path''] else [])
            @ (if po_query parameters \<noteq> None
                  \<and> hasParameterGroupObjectRequired (po_query parameters)
               then [''query''] else []))"

definition parameterGroup ::
  "OperationObject \<Rightarrow> (ParametersObject \<Rightarrow> (string \<times> ParameterObject) list option)
   \<Rightarrow> (string \<times> ParameterObject) list" where
  "parameterGroup operation sel =
     (case op_parameters operation of
        None \<Rightarrow> []
      | Some parameters \<Rightarrow> (case sel parameters of None \<Rightarrow> [] | Some g \<Rightarrow> g))"

text \<open>The object schema that \<^verbatim>\<open>operationToZodSchema\<close> hands to the emitter for the request.\<close>

definition requestSchema :: "OperationObject \<Rightarrow> schema" where
  "requestSchema operation =
     SchemaObject
       (no_attrs \<lparr> sa_type := Some TObject,
                   sa_required := Some (requiredProperties operation) \<rparr>)
       None
       (Some [(''body'', (case op_body operation of
                            None \<Rightarrow> schema_of_type TNever
                          | Some body \<Rightarrow> rb_schema body)),
              (''headers'', groupSchema (groupProperties (parameterGroup operation po_header))),
              (''path'', groupSchema (groupProperties (parameterGroup operation po_path))),
              (''query'', groupSchema (groupProperties (parameterGroup operation po_query)))])"

definition operationToZodSchema ::
  "nat \<Rightarrow> Plugin \<Rightarrow> OperationObject \<Rightarrow> emit_state \<Rightarrow> error + emit_state" where
  "operationToZodSchema fuel plugin operation st =
     (case (if config_requests_enabled plugin
            then (let r = ''#/zod-data/'' @ op_id operation;
                      (identifierData, st1) = file_identifier (config_requests_name plugin) r True st
                  in case schemaToZodSchema fuel plugin (Some r) (Some identifierData) False
                            (requestSchema operation) st1 of
                       Inl e \<Rightarrow> Inl e
                     | Inr (expression, st2) \<Rightarrow> Inr st2)
            else Inr st) of
        Inl e \<Rightarrow> Inl e
      | Inr st2 \<Rightarrow>
          if config_responses_enabled plugin \<and> op_responses operation \<noteq> None
          then (case operationResponsesMap plugin operation of
                  None \<Rightarrow> Inr st2
                | Some response \<Rightarrow>
                    (let r = ''#/zod-response/'' @ op_id operation;
                         (identifierResponse, st3) =
                           file_identifier (config_responses_name plugin) r True st2
                     in case schemaToZodSchema fuel plugin (Some r) (Some identifierResponse) False
                               response st3 of
                          Inl e \<Rightarrow> Inl e
                        | Inr (expression, st4) \<Rightarrow> Inr st4))
          else Inr st2)"

text \<open>
  The handler gives every event a new \<^verbatim>\<open>State\<close>; the file stays. The \<^verbatim>\<open>schema\<close>,
  \<^verbatim>\<open>parameter\<close> and \<^verbatim>\<open>requestBody\<close> subscribers all emit a schema under the event's ref.
\<close>

definition newState :: "emit_state \<Rightarrow> emit_state" where
  "newState st = st \<lparr> circularReferenceTracker := {}, hasCircularReference := False \<rparr>"

definition onSchema ::
  "nat \<Rightarrow> Plugin \<Rightarrow> string \<Rightarrow> schema \<Rightarrow> emit_state \<Rightarrow> error + (expr \<times> emit_state)" where
  "onSchema fuel plugin r schema st =
     schemaToZodSchema fuel plugin (Some r) None False schema (newState st)"

definition onOperation ::
  "nat \<Rightarrow> Plugin \<Rightarrow> OperationObject \<Rightarrow> emit_state \<Rightarrow> error + emit_state" where
  "onOperation fuel plugin operation st = operationToZodSchema fuel plugin operation (newState st)"

text \<open>The file as the handler creates it.\<close>

definition emptyFile :: emit_state where
  "emptyFile = \<lparr> circularReferenceTracker = {}, hasCircularReference = False,
                 identifiers = [], nodes = [] \<rparr>"

section \<open>The 3.1 parser: parameters of an operation\<close>
















section \<open>Notions used to state the properties\<close>

text \<open>
  The names along the receiver chain of an expression, innermost first:
  \<^verbatim>\<open>z.number().int().gte(1)\<close> has the chain \<^verbatim>\<open>number, int, gte\<close>.
\<close>

fun chain :: "expr \<Rightarrow> string list" where
  "chain (CallExpression f parameters) = chain f"
| "chain (PropertyAccessExpression e name) = chain e @ [name]"
| "chain _ = []"

text \<open>
  The order of the modifiers as the specification words it, written out on its own:
  \<^verbatim>\<open>.readonly()\<close> when the access scope is \<^verbatim>\<open>read\<close>, \<^verbatim>\<open>.optional()\<close> when the caller passed
  \<^verbatim>\<open>optional\<close>, \<^verbatim>\<open>.default(value)\<close> when there is a default (through \<^verbatim>\<open>BigInt\<close> for an
  \<^verbatim>\<open>int64\<close> integer), and \<^verbatim>\<open>.describe(description)\<close> last when metadata is enabled and
  there is a description.
\<close>

definition spec_modifiers :: "Plugin \<Rightarrow> schema \<Rightarrow> bool \<Rightarrow> expr \<Rightarrow> expr" where
  "spec_modifiers plugin schema optional expression =
     (let e1 = (if sa_accessScope (attrs schema) = Some ScopeRead
                then method_call expression ''readonly'' [] else expression);
          e2 = (if optional then method_call e1 ''optional'' [] else e1);
          e3 = (case sa_default (attrs schema) of
                  None \<Rightarrow> e2
                | Some v \<Rightarrow>
                    method_call e2 ''default''
                      [if schema_type schema = Some TInteger
                          \<and> sa_format (attrs schema) = Some ''int64''
                       then CallExpression (Identifier ''BigInt'') [ValueToExpression v]
                       else ValueToExpression v])
      in case sa_description (attrs schema) of
           None \<Rightarrow> e3
         | Some d \<Rightarrow>
             if config_metadata plugin \<and> d \<noteq> []
             then method_call e3 ''describe'' [StringLiteral d] else e3)"

text \<open>A plugin configuration for the examples: names are prefixed with \<^verbatim>\<open>z\<close>.\<close>

definition examplePlugin :: "(string \<times> schema) list \<Rightarrow> Plugin" where
  "examplePlugin components =
     \<lparr> config_comments = False, config_metadata = True, config_requests_enabled = True,
       config_responses_enabled = False,
       config_definitions_name = (\<lambda>n. CHR ''z'' # n),
       config_requests_name = (\<lambda>n. CHR ''z'' # n @ ''Data''),
       config_responses_name = (\<lambda>n. CHR ''z'' # n @ ''Response''),
       createSchemaComment = (\<lambda>s. None),
       operationResponsesMap = (\<lambda>operation. None),
       ir_components = components \<rparr>"

section \<open>Notions used to state the properties of a traversal\<close>

text \<open>
  The refs that a traversal of a schema meets: the ref of a ref node, and below a node
  without a ref the refs of the items and properties that its branch emits.
\<close>

fun refsOf :: "schema \<Rightarrow> string set" where
  "refsOf (SchemaObject a its props) =
     (if truthy (sa_ref a) then {r. sa_ref a = Some r}
      else (case sa_type a of
              Some TArray \<Rightarrow> (case its of None \<Rightarrow> {} | Some xs \<Rightarrow> (\<Union>x \<in> set xs. refsOf x))
            | Some TObject \<Rightarrow>
                (case props of None \<Rightarrow> {} | Some ps \<Rightarrow> (\<Union>p \<in> set ps. refsOf (snd p)))
            | Some TTuple \<Rightarrow>
                (case sa_const a of
                   Some (JArr vs) \<Rightarrow> {}
                 | _ \<Rightarrow> (case its of None \<Rightarrow> {} | Some xs \<Rightarrow> (\<Union>x \<in> set xs. refsOf x)))
            | Some _ \<Rightarrow> {}
            | None \<Rightarrow> (case its of None \<Rightarrow> {} | Some xs \<Rightarrow> (\<Union>x \<in> set xs. refsOf x))))"

text \<open>The refs that have an identifier in the file.\<close>

definition named :: "emit_state \<Rightarrow> string set" where
  "named st = fst ` set (identifiers st)"

text \<open>
  A state is good when no identifier of the file has the empty name and every ref on the
  traversal stack has an identifier.
\<close>

definition good :: "emit_state \<Rightarrow> bool" where
  "good st = ((\<forall>p \<in> set (identifiers st). snd p \<noteq> [])
              \<and> circularReferenceTracker st \<subseteq> named st)"


definition distinct_names :: "emit_state \<Rightarrow> bool" where
  "distinct_names st = distinct (map snd (identifiers st))"

text \<open>
  The file is closed when every component that has an identifier and is not on the stack
  has identifiers for all the refs its schema meets.
\<close>

definition closed :: "Plugin \<Rightarrow> emit_state \<Rightarrow> bool" where
  "closed plugin st =
     (\<forall>r s. r \<in> named st \<longrightarrow> r \<notin> circularReferenceTracker st
            \<longrightarrow> map_of (ir_components plugin) r = Some s \<longrightarrow> refsOf s \<subseteq> named st)"

text \<open>
  From \<open>st\<close> to \<open>st'\<close> the file has grown by identifiers and by nodes, and the new nodes
  declare the names of the new identifiers, each as often as it was created.
\<close>

definition extends :: "emit_state \<Rightarrow> emit_state \<Rightarrow> bool" where
  "extends st st' =
     (\<exists>newids newnodes.
        identifiers st' = identifiers st @ newids
      \<and> nodes st' = nodes st @ newnodes
      \<and> mset (map cv_name newnodes) = mset (map snd newids))"

text \<open>The ref argument of a call, when it counts as one.\<close>

definition ref_set :: "string option \<Rightarrow> string set" where
  "ref_set ref = (case ref of None \<Rightarrow> {} | Some r \<Rightarrow> if r = [] then {} else {r})"


text \<open>
  What a completed call does to a good state: the state stays good, the file is extended,
  the stack is as before, names stay distinct, and (under \<open>c\<close>) a closed file stays closed
  and has identifiers for the refs \<open>X\<close>.
\<close>

definition carries :: "Plugin \<Rightarrow> bool \<Rightarrow> string set \<Rightarrow> emit_state \<Rightarrow> emit_state \<Rightarrow> bool" where
  "carries plugin c X st st' =
     (good st' \<and> extends st st'
      \<and> circularReferenceTracker st' = circularReferenceTracker st
      \<and> (distinct_names st \<longrightarrow> distinct_names st')
      \<and> (c \<and> closed plugin st \<longrightarrow> closed plugin st' \<and> X \<subseteq> named st'))"








text \<open>The refs that can be reached from a schema through the components.\<close>

inductive_set reach :: "Plugin \<Rightarrow> schema \<Rightarrow> string set" for plugin :: Plugin and schema :: schema
  where
    direct: "r \<in> refsOf schema \<Longrightarrow> r \<in> reach plugin schema"
  | through: "r \<in> reach plugin schema \<Longrightarrow> map_of (ir_components plugin) r = Some s
              \<Longrightarrow> r' \<in> refsOf s \<Longrightarrow> r' \<in> reach plugin schema"


section \<open>Example inputs\<close>

text \<open>
  Three subscribers to one event; each writes its name to a log, the second throws what it
  is given.
\<close>

definition logListener :: "string \<Rightarrow> thrown option \<Rightarrow> (unit, string list) ListenerWithMeta" where
  "logListener name throws = \<lparr> callbackFn = (\<lambda>args w. (throws, w @ [name])), pluginName = name \<rparr>"

definition exampleContext :: "(unit, string list) IRContext" where
  "exampleContext =
     \<lparr> config_output_path = ''out'',
       files = Map.empty,
       listeners = (\<lambda>ev. if ev = Schema
                          then Some [logListener ''a'' None,
                                     logListener ''b'' (Some (ThrownError (JsError ''boom''))),
                                     logListener ''c'' None]
                          else None),
       spec = JObj [(''components'',
                JObj [(''schemas'',
                  JObj [(''Pet'', JObj [(''type'', JStr ''object''),
                                         (''description'', JStr ''referent'')])])])] \<rparr>"



definition joinPath :: "string \<Rightarrow> string list \<Rightarrow> string" where
  "joinPath root parts = foldl (\<lambda>a p. a @ ''/'' @ p) root parts"

definition zodFile :: "string \<Rightarrow> ContextFile" where
  "zodFile p = \<lparr> cf_exportFromIndex = None, cf_id = ''zod'', cf_identifierCase = Some CamelCase,
                 cf_path = p \<rparr>"

definition petHolder :: "(string \<times> json) list" where
  "petHolder = [(''$ref'', JStr ''#/components/schemas/Pet''),
                (''description'', JStr ''holder''),
                (''nullable'', JBool True)]"

text \<open>A described, read-only string; an integer with a minimum.\<close>

definition describedReadonlyString :: schema where
  "describedReadonlyString =
     SchemaObject (no_attrs \<lparr> sa_type := Some TString, sa_accessScope := Some ScopeRead,
                               sa_description := Some ''d'' \<rparr>) None None"

text \<open>A described, read-only \<^verbatim>\<open>int64\<close> integer with the default 5.\<close>

definition describedReadonlyBigInt :: schema where
  "describedReadonlyBigInt =
     SchemaObject (no_attrs \<lparr> sa_type := Some TInteger, sa_format := Some ''int64'',
                               sa_accessScope := Some ScopeRead, sa_description := Some ''d'',
                               sa_default := Some (JNum 5) \<rparr>) None None"

definition positiveInteger :: schema where
  "positiveInteger =
     SchemaObject (no_attrs \<lparr> sa_type := Some TInteger, sa_minimum := Some 1 \<rparr>) None None"

text \<open>An operation whose only parameter is a required header.\<close>

definition versionRequired :: ParameterObject where
  "versionRequired = \<lparr> p_name = ''version'', p_location = Header, p_required = Some True,
                        p_schema = schema_of_type TString \<rparr>"


definition headerOnlyOperation :: OperationObject where
  "headerOnlyOperation =
     \<lparr> op_id = ''getPet'', op_body = None,
       op_parameters = Some \<lparr> po_cookie = None,
                               po_header = Some [(''version'', versionRequired)],
                               po_path = None, po_query = None \<rparr>,
       op_responses = None \<rparr>"



text \<open>Two object schemas that refer to each other.\<close>

definition refA :: string where
  "refA = ''#/components/schemas/A''"

definition refB :: string where
  "refB = ''#/components/schemas/B''"

definition schemaA :: schema where
  "schemaA = SchemaObject (no_attrs \<lparr> sa_type := Some TObject \<rparr>) None
               (Some [(''b'', schema_of_ref refB)])"

definition schemaB :: schema where
  "schemaB = SchemaObject (no_attrs \<lparr> sa_type := Some TObject \<rparr>) None
               (Some [(''a'', schema_of_ref refA)])"

definition cycleAB :: "(string \<times> schema) list" where
  "cycleAB = [(refA, schemaA), (refB, schemaB)]"




section \<open>Properties of the context\<close>

lemma map_of_spread:
  "map_of (spread a b) k = (case map_of b k of Some w \<Rightarrow> Some w | None \<Rightarrow> map_of a k)"
proof -
  have m: "map_of (map (\<lambda>(k, v). (k, case map_of b k of Some w \<Rightarrow> w | None \<Rightarrow> v)) a) k
        = (case map_of a k of None \<Rightarrow> None
           | Some v \<Rightarrow> Some (case map_of b k of Some w \<Rightarrow> w | None \<Rightarrow> v))"
    by (induction a) (auto split: option.splits)
  have f: "map_of (filter (\<lambda>(k, v). map_of a k = None) b) k
        = (if map_of a k = None then map_of b k else None)"
    by (induction b) (auto split: option.splits)
  show ?thesis
    unfolding spread_def map_of_append map_add_def m f
    by (auto split: option.splits)
qed

lemma map_of_delete_key:
  "map_of (delete_key key obj) k = (if k = key then None else map_of obj k)"
  unfolding delete_key_def by (induction obj) auto






text \<open>
  C5 at two calls of \<^verbatim>\<open>createFile\<close> with the id \<^verbatim>\<open>zod\<close>: after the first the lookup gives
  the file created first; the second call returns the new file like any other call, and
  after it the lookup gives the new file: the file created first is lost.
\<close>

theorem createFile_first_file_is_lost:
  "file_of (snd (createFile joinPath (zodFile ''a/zod'') exampleContext)) ''zod''
     = Some \<lparr> tf_dir = ''out/a'', tf_exportFromIndex = None, tf_id = ''zod'',
              tf_identifierCase = Some CamelCase, tf_name = ''zod.ts'' \<rparr>
   \<and> fst (createFile joinPath (zodFile ''b/zod'')
            (snd (createFile joinPath (zodFile ''a/zod'') exampleContext)))
     = \<lparr> tf_dir = ''out/b'', tf_exportFromIndex = None, tf_id = ''zod'',
         tf_identifierCase = Some CamelCase, tf_name = ''zod.ts'' \<rparr>
   \<and> file_of (snd (createFile joinPath (zodFile ''b/zod'')
                      (snd (createFile joinPath (zodFile ''a/zod'') exampleContext)))) ''zod''
     = Some \<lparr> tf_dir = ''out/b'', tf_exportFromIndex = None, tf_id = ''zod'',
              tf_identifierCase = Some CamelCase, tf_name = ''zod.ts'' \<rparr>
   \<and> file_of (snd (createFile joinPath (zodFile ''b/zod'')
                      (snd (createFile joinPath (zodFile ''a/zod'') exampleContext)))) ''zod''
     \<noteq> file_of (snd (createFile joinPath (zodFile ''a/zod'') exampleContext)) ''zod''"
  by (simp add: createFile_def file_of_def zodFile_def exampleContext_def joinPath_def Let_def)

text \<open>
  C8. For a holder with a \<^verbatim>\<open>$ref\<close> that resolves, \<^verbatim>\<open>dereference\<close> returns an object without
  the key \<^verbatim>\<open>$ref\<close> in which every other key has the referent's value when the referent
  has the key, and the holder's value otherwise (the keys of a referent that is an object
  are its fields). The result is a new object; the function returns nothing else, so the
  holder and the spec are as they were.
\<close>

theorem dereference_merges_referent:
  assumes "map_of schema ''$ref'' = Some (JStr r)"
      and "resolveRef r (spec ctx) = Inr resolved"
  shows "\<exists>d. dereference ctx schema = Inr d
           \<and> map_of d ''$ref'' = None
           \<and> (\<forall>k. k \<noteq> ''$ref'' \<longrightarrow>
                 map_of d k = (case map_of (own_entries resolved) k of
                                 Some v \<Rightarrow> Some v
                               | None \<Rightarrow> map_of schema k))
           \<and> (\<forall>fields. resolved = JObj fields \<longrightarrow> own_entries resolved = fields)"
  using assms
  by (simp add: dereference_def own_entries_def map_of_delete_key map_of_spread)

theorem dereference_merges_referent_witness:
  "map_of petHolder ''$ref'' = Some (JStr ''#/components/schemas/Pet'')
   \<and> resolveRef ''#/components/schemas/Pet'' (spec exampleContext)
       = Inr (JObj [(''type'', JStr ''object''), (''description'', JStr ''referent'')])
   \<and> dereference exampleContext petHolder
       = Inr [(''description'', JStr ''referent''), (''nullable'', JBool True),
              (''type'', JStr ''object'')]"
proof -
  have h1: "map_of petHolder ''$ref'' = Some (JStr ''#/components/schemas/Pet'')"
    by (simp add: petHolder_def)
  have h2: "resolveRef ''#/components/schemas/Pet'' (spec exampleContext)
       = Inr (JObj [(''type'', JStr ''object''), (''description'', JStr ''referent'')])"
    by (simp add: resolveRef_def jsonPointerToPath_def exampleContext_def)
  show ?thesis
    using h1 h2 dereference_merges_referent [OF h1 h2]
    by (simp add: dereference_def petHolder_def own_entries_def spread_def delete_key_def)
qed

section \<open>Properties of the parser\<close>









section \<open>Properties of the emitter: one call\<close>

lemma chain_method_call [simp]: "chain (method_call e name ps) = chain e @ [name]"
  by (simp add: method_call_def)

lemma chain_z_call [simp]: "chain (z_call name ps) = [name]"
  by (simp add: z_call_def zIdentifier_def)

lemma attrs_deduplicateSchema [simp]: "attrs (deduplicateSchema schema) = attrs schema"
  by (simp add: deduplicateSchema_def split: option.splits)

lemma compositeToZodSchema_attrs:
  "compositeToZodSchema rec schema st = Inr (expression, schema1, st1)
   \<Longrightarrow> attrs schema1 = attrs schema"
  by (auto simp: compositeToZodSchema_def Let_def
           split: option.splits sum.splits if_splits list.splits)

lemma emitExpression_attrs:
  "emitExpression rec plugin schema st = Inr (anyType, expression, schema1, st1)
   \<Longrightarrow> attrs schema1 = attrs schema"
  by (auto simp: emitExpression_def dest: compositeToZodSchema_attrs split: sum.splits if_splits)

lemma schemaToZodSchema_Suc_Inr:
  assumes "schemaToZodSchema (Suc fuel) plugin ref ident optional schema st = Inr (expression, st')"
      and "enter plugin ref ident st = (idn, st1)"
  shows "\<exists>anyType base schema1 st2.
           emitExpression (schemaToZodSchema fuel plugin) plugin schema st1
             = Inr (anyType, base, schema1, st2)
         \<and> expression = modifiers schema1 optional base
         \<and> st' = emitNode plugin idn schema1 anyType expression (leave ref st2)"
  using assms by (auto simp: Let_def split: sum.splits)

text \<open>
  C10. For an integer schema without a numeric \<^verbatim>\<open>const\<close>, the receiver chain of the emitted
  expression starts with \<^verbatim>\<open>number, int\<close> when the format is not \<^verbatim>\<open>int64\<close>, and with
  \<^verbatim>\<open>coerce, bigint\<close> when it is; what follows is bound refinements only, so \<^verbatim>\<open>.int()\<close> comes
  before every bound, and an \<^verbatim>\<open>int64\<close> integer never has it.
\<close>

theorem integer_gets_int_refinement:
  assumes "schema_type schema = Some TInteger"
      and "\<forall>c. sa_const (attrs schema) \<noteq> Some (JNum c)"
  shows "\<exists>bounds. set bounds \<subseteq> {''gt'', ''gte'', ''lt'', ''lte''}
           \<and> chain (numberTypeToZodSchema schema)
               = (if sa_format (attrs schema) = Some ''int64''
                  then [''coerce'', ''bigint''] else [''number'', ''int'']) @ bounds"
proof -
  have nc: "(case sa_const (attrs schema) of Some (JNum c) \<Rightarrow> f c | _ \<Rightarrow> g) = g"
    for f :: "int \<Rightarrow> expr" and g :: expr
    using assms(2) by (auto split: option.splits json.splits)
  show ?thesis
    unfolding numberTypeToZodSchema_def Let_def nc
    using assms(1)
    by (auto simp: zIdentifier_def split: option.splits)
qed

theorem integer_gets_int_refinement_witness:
  "schema_type positiveInteger = Some TInteger
   \<and> (\<forall>c. sa_const (attrs positiveInteger) \<noteq> Some (JNum c))
   \<and> chain (numberTypeToZodSchema positiveInteger) = [''number'', ''int'', ''gte'']"
proof -
  have h1: "schema_type positiveInteger = Some TInteger"
    by (simp add: positiveInteger_def no_attrs_def)
  have h2: "\<forall>c. sa_const (attrs positiveInteger) \<noteq> Some (JNum c)"
    by (simp add: positiveInteger_def no_attrs_def)
  show ?thesis
    using h1 h2 integer_gets_int_refinement [OF h1 h2]
    by (simp add: positiveInteger_def no_attrs_def numberTypeToZodSchema_def zIdentifier_def
          numberParameter_def)
qed

text \<open>
  C4, as the code has it. A completed call has taken one of four branches, which gave the
  base expression:
  \<^item> for a schema with a \<^verbatim>\<open>$ref\<close>, the expression of the ref;
  \<^item> else for a schema with a type, the expression of the type, with
    \<^verbatim>\<open>.describe(description)\<close> directly on it when metadata is enabled and the description
    is a non-empty string, and without it otherwise;
  \<^item> else for a schema with items, the expression of the composition;
  \<^item> else \<^verbatim>\<open>z.unknown()\<close>.

  The call returns the base expression with \<^verbatim>\<open>.readonly()\<close> when the access scope is
  \<^verbatim>\<open>read\<close>, then \<^verbatim>\<open>.optional()\<close> when the caller passed \<^verbatim>\<open>optional\<close>, then \<^verbatim>\<open>.default(value)\<close>
  when the schema has a default, the value inside \<^verbatim>\<open>BigInt(...)\<close> when the schema is an
  \<^verbatim>\<open>int64\<close> integer and the value is a number, a string or a boolean. So \<^verbatim>\<open>.describe\<close> comes
  first, and only on the branch of the type.
\<close>

theorem describe_precedes_modifiers:
  assumes "schemaToZodSchema (Suc fuel) plugin ref ident optional schema st = Inr (expression, st')"
  shows "\<exists>anyType base schema1 st2.
           emitExpression (schemaToZodSchema fuel plugin) plugin schema
               (snd (enter plugin ref ident st))
             = Inr (anyType, base, schema1, st2)
         \<and> expression
             = (let e1 = (if sa_accessScope (attrs schema) = Some ScopeRead
                          then method_call base ''readonly'' [] else base);
                    e2 = (if optional then method_call e1 ''optional'' [] else e1)
                in case sa_default (attrs schema) of
                     None \<Rightarrow> e2
                   | Some v \<Rightarrow>
                       method_call e2 ''default''
                         [if schema_type schema = Some TInteger
                             \<and> sa_format (attrs schema) = Some ''int64''
                             \<and> (case v of JNum _ \<Rightarrow> True | JStr _ \<Rightarrow> True
                                  | JBool _ \<Rightarrow> True | _ \<Rightarrow> False)
                          then CallExpression (Identifier ''BigInt'') [ValueToExpression v]
                          else ValueToExpression v])
         \<and> (if truthy (schema_ref schema)
             then refToZodSchema (schemaToZodSchema fuel plugin) plugin
                    (case schema_ref schema of Some r \<Rightarrow> r | None \<Rightarrow> [])
                    (snd (enter plugin ref ident st)) = Inr (base, st2)
             else if schema_type schema \<noteq> None
             then (\<exists>typeExpression.
                     schemaTypeToZodSchema (schemaToZodSchema fuel plugin) schema
                       (snd (enter plugin ref ident st)) = Inr (anyType, typeExpression, st2)
                   \<and> base = (case sa_description (attrs schema) of
                               None \<Rightarrow> typeExpression
                             | Some d \<Rightarrow>
                                 if config_metadata plugin \<and> d \<noteq> []
                                 then method_call typeExpression ''describe'' [StringLiteral d]
                                 else typeExpression))
             else if items schema \<noteq> None
             then compositeToZodSchema (schemaToZodSchema fuel plugin) schema
                    (snd (enter plugin ref ident st)) = Inr (base, schema1, st2)
             else base = z_call ''unknown'' [])"
proof -
  obtain idn st1 where en: "enter plugin ref ident st = (idn, st1)"
    by (cases "enter plugin ref ident st")
  from schemaToZodSchema_Suc_Inr [OF assms en] obtain anyType base schema1 st2 where
    em: "emitExpression (schemaToZodSchema fuel plugin) plugin schema st1
           = Inr (anyType, base, schema1, st2)"
    and ex: "expression = modifiers schema1 optional base"
    by blast
  have at: "attrs schema1 = attrs schema"
    using em by (rule emitExpression_attrs)
  have ex': "expression
             = (let e1 = (if sa_accessScope (attrs schema) = Some ScopeRead
                          then method_call base ''readonly'' [] else base);
                    e2 = (if optional then method_call e1 ''optional'' [] else e1)
                in case sa_default (attrs schema) of
                     None \<Rightarrow> e2
                   | Some v \<Rightarrow>
                       method_call e2 ''default''
                         [if schema_type schema = Some TInteger
                             \<and> sa_format (attrs schema) = Some ''int64''
                             \<and> (case v of JNum _ \<Rightarrow> True | JStr _ \<Rightarrow> True
                                  | JBool _ \<Rightarrow> True | _ \<Rightarrow> False)
                          then CallExpression (Identifier ''BigInt'') [ValueToExpression v]
                          else ValueToExpression v])"
    by (simp add: ex modifiers_def Let_def defaultModifier_def readonlyModifier_def
          optionalModifier_def numberParameter_def at split: option.splits)
  have br: "if truthy (schema_ref schema)
             then refToZodSchema (schemaToZodSchema fuel plugin) plugin
                    (case schema_ref schema of Some r \<Rightarrow> r | None \<Rightarrow> []) st1 = Inr (base, st2)
             else if schema_type schema \<noteq> None
             then (\<exists>typeExpression.
                     schemaTypeToZodSchema (schemaToZodSchema fuel plugin) schema st1
                       = Inr (anyType, typeExpression, st2)
                   \<and> base = (case sa_description (attrs schema) of
                               None \<Rightarrow> typeExpression
                             | Some d \<Rightarrow>
                                 if config_metadata plugin \<and> d \<noteq> []
                                 then method_call typeExpression ''describe'' [StringLiteral d]
                                 else typeExpression))
             else if items schema \<noteq> None
             then compositeToZodSchema (schemaToZodSchema fuel plugin) schema st1
                    = Inr (base, schema1, st2)
             else base = z_call ''unknown'' []"
  proof (cases "truthy (schema_ref schema)")
    case True
    with em show ?thesis
      by (auto simp: emitExpression_def split: sum.splits)
  next
    case r: False
    show ?thesis
    proof (cases "schema_type schema = None")
      case False
      with em r show ?thesis
        by (auto simp: emitExpression_def typedToZodSchema_def describe_def truthy_def
              split: sum.splits option.splits)
    next
      case t: True
      show ?thesis
      proof (cases "items schema = None")
        case False
        with em r t show ?thesis
          by (auto simp: emitExpression_def split: sum.splits)
      next
        case True
        with em r t show ?thesis
          by (auto simp: emitExpression_def unknownTypeToZodSchema_def)
      qed
    qed
  qed
  show ?thesis
    using em ex' br by (simp add: en)
qed

theorem describe_precedes_modifiers_witness:
  "schemaToZodSchema (Suc 0) (examplePlugin []) None None True describedReadonlyBigInt emptyFile
     = Inr (method_call
              (method_call
                 (method_call
                    (method_call
                       (CallExpression
                          (PropertyAccessExpression
                             (PropertyAccessExpression zIdentifier ''coerce'') ''bigint'') [])
                       ''describe'' [StringLiteral ''d''])
                    ''readonly'' [])
                 ''optional'' [])
              ''default'' [CallExpression (Identifier ''BigInt'') [ValueToExpression (JNum 5)]],
            emptyFile)
   \<and> schemaTypeToZodSchema (schemaToZodSchema 0 (examplePlugin [])) describedReadonlyBigInt
         (snd (enter (examplePlugin []) None None emptyFile))
       = Inr (None,
              CallExpression
                (PropertyAccessExpression
                   (PropertyAccessExpression zIdentifier ''coerce'') ''bigint'') [],
              emptyFile)"
proof -
  have h: "schemaToZodSchema (Suc 0) (examplePlugin []) None None True describedReadonlyBigInt
             emptyFile
     = Inr (method_call
              (method_call
                 (method_call
                    (method_call
                       (CallExpression
                          (PropertyAccessExpression
                             (PropertyAccessExpression zIdentifier ''coerce'') ''bigint'') [])
                       ''describe'' [StringLiteral ''d''])
                    ''readonly'' [])
                 ''optional'' [])
              ''default'' [CallExpression (Identifier ''BigInt'') [ValueToExpression (JNum 5)]],
            emptyFile)"
    by (simp add: describedReadonlyBigInt_def examplePlugin_def emptyFile_def no_attrs_def
          enter_def emitExpression_def truthy_def typedToZodSchema_def schemaTypeToZodSchema_def
          numberTypeToZodSchema_def describe_def leave_def modifiers_def Let_def
          readonlyModifier_def optionalModifier_def defaultModifier_def emitNode_def
          numberParameter_def)
  show ?thesis
    using h describe_precedes_modifiers [OF h]
    by (auto simp: describedReadonlyBigInt_def examplePlugin_def no_attrs_def truthy_def
          emptyFile_def enter_def schemaTypeToZodSchema_def numberTypeToZodSchema_def Let_def)
qed

text \<open>
  The claim of C4 as it is worded fails: for a described read-only string with metadata
  on, the emitted expression is \<^verbatim>\<open>z.string().describe('d').readonly()\<close>, while the order
  of the specification gives \<^verbatim>\<open>z.string().readonly().describe('d')\<close>.
\<close>

theorem describe_is_not_last:
  "schemaToZodSchema 1 (examplePlugin []) None None False describedReadonlyString emptyFile
     = Inr (method_call (method_call (z_call ''string'' []) ''describe'' [StringLiteral ''d''])
              ''readonly'' [], emptyFile)
   \<and> spec_modifiers (examplePlugin []) describedReadonlyString False (z_call ''string'' [])
     = method_call (method_call (z_call ''string'' []) ''readonly'' [])
         ''describe'' [StringLiteral ''d'']
   \<and> method_call (method_call (z_call ''string'' []) ''describe'' [StringLiteral ''d''])
         ''readonly'' []
     \<noteq> spec_modifiers (examplePlugin []) describedReadonlyString False (z_call ''string'' [])"
  by (simp add: describedReadonlyString_def examplePlugin_def emptyFile_def no_attrs_def
        enter_def emitExpression_def truthy_def typedToZodSchema_def schemaTypeToZodSchema_def
        stringTypeToZodSchema_def lengthRefinements_def describe_def leave_def modifiers_def
        readonlyModifier_def optionalModifier_def defaultModifier_def emitNode_def
        spec_modifiers_def method_call_def z_call_def Let_def)

text \<open>
  C3 at an operation whose only parameter is a required header: the header group has a
  required member, yet \<^verbatim>\<open>headers\<close> is not among the required properties of the request
  object, because the test under the header group reads the path group.
\<close>

theorem required_header_leaves_headers_optional:
  "hasParameterGroupObjectRequired (Some [(''version'', versionRequired)])
   \<and> op_parameters headerOnlyOperation
       = Some \<lparr> po_cookie = None, po_header = Some [(''version'', versionRequired)],
                po_path = None, po_query = None \<rparr>
   \<and> ''headers'' \<notin> set (requiredProperties headerOnlyOperation)
   \<and> sa_required (attrs (requestSchema headerOnlyOperation)) = Some []"
  by (simp add: headerOnlyOperation_def hasParameterGroupObjectRequired_def
        requiredProperties_def requestSchema_def no_attrs_def versionRequired_def)

lemma schemaTypeToZodSchema_anyType:
  assumes "schemaTypeToZodSchema rec schema st = Inr (anyType, expression, st1)"
  shows "anyType = (if schema_type schema = Some TObject then Some ''AnyZodObject'' else None)"
proof (cases "schema_type schema")
  case None
  with assms show ?thesis by (simp add: schemaTypeToZodSchema_def)
next
  case (Some t)
  show ?thesis
    using assms Some
    by (cases t)
       (auto simp: schemaTypeToZodSchema_def objectTypeToZodSchema_def Let_def split: sum.splits)
qed

lemma emitExpression_anyType:
  assumes "emitExpression rec plugin schema st = Inr (anyType, expression, schema1, st1)"
  shows "anyType = (if \<not> truthy (schema_ref schema) \<and> schema_type schema = Some TObject
                  then Some ''AnyZodObject'' else None)"
proof (cases "truthy (schema_ref schema)")
  case True
  with assms show ?thesis
    by (auto simp: emitExpression_def split: sum.splits)
next
  case False
  show ?thesis
  proof (cases "schema_type schema = None")
    case True
    with assms False show ?thesis
      by (auto simp: emitExpression_def split: sum.splits if_splits)
  next
    case t: False
    with assms False show ?thesis
      by (auto simp: emitExpression_def typedToZodSchema_def
            dest: schemaTypeToZodSchema_anyType split: sum.splits)
  qed
qed

lemma hasCircularReference_emitNode [simp]:
  "hasCircularReference (emitNode plugin idn schema anyType expression st) = hasCircularReference st"
  by (simp add: emitNode_def file_add_def split: option.splits)


text \<open>
  C7. When a call ends with an identifier that is newly created and has a name, the node it
  adds last declares that name with the returned expression, and when the flag
  \<^verbatim>\<open>hasCircularReference\<close> is set at that time the declaration has a type annotation:
  \<^verbatim>\<open>z.AnyZodObject\<close> when the schema is emitted as an object, \<^verbatim>\<open>z.ZodTypeAny\<close> otherwise.
  For two object schemas that refer to each other, emitting the first declares the second
  and then the first, both with the annotation \<^verbatim>\<open>z.AnyZodObject\<close>.
\<close>

theorem circular_declaration_is_annotated:
  assumes "schemaToZodSchema (Suc fuel) plugin ref ident optional schema st = Inr (expression, st')"
      and "fst (enter plugin ref ident st) = Some i"
      and "id_name i \<noteq> []"
      and "id_created i"
  shows "(\<exists>ns comment.
            nodes st' = ns @ [\<lparr> cv_comment = comment, cv_exportConst = True,
                                cv_expression = expression, cv_name = id_name i,
                                cv_typeName =
                                  (if hasCircularReference st'
                                   then Some (PropertyAccessExpression zIdentifier
                                                (if \<not> truthy (schema_ref schema)
                                                    \<and> schema_type schema = Some TObject
                                                 then ''AnyZodObject'' else ''ZodTypeAny''))
                                   else None) \<rparr>])
       \<and> (case onSchema 4 (examplePlugin cycleAB) refA schemaA emptyFile of
             Inr (e, st) \<Rightarrow> map (\<lambda>n. (cv_name n, cv_typeName n)) (nodes st)
           | Inl _ \<Rightarrow> [])
          = [(''zB'', Some (PropertyAccessExpression zIdentifier ''AnyZodObject'')),
             (''zA'', Some (PropertyAccessExpression zIdentifier ''AnyZodObject''))]"
proof -
  obtain idn st1 where en: "enter plugin ref ident st = (idn, st1)"
    by (cases "enter plugin ref ident st")
  with assms(2) have idn: "idn = Some i" by simp
  from schemaToZodSchema_Suc_Inr [OF assms(1) en] obtain anyType base schema1 st2 where
    em: "emitExpression (schemaToZodSchema fuel plugin) plugin schema st1
           = Inr (anyType, base, schema1, st2)"
    and st': "st' = emitNode plugin idn schema1 anyType expression (leave ref st2)"
    by blast
  have an: "anyType = (if \<not> truthy (schema_ref schema) \<and> schema_type schema = Some TObject
                       then Some ''AnyZodObject'' else None)"
    using em by (rule emitExpression_anyType)
  have general: "\<exists>ns comment.
            nodes st' = ns @ [\<lparr> cv_comment = comment, cv_exportConst = True,
                                cv_expression = expression, cv_name = id_name i,
                                cv_typeName =
                                  (if hasCircularReference st'
                                   then Some (PropertyAccessExpression zIdentifier
                                                (if \<not> truthy (schema_ref schema)
                                                    \<and> schema_type schema = Some TObject
                                                 then ''AnyZodObject'' else ''ZodTypeAny''))
                                   else None) \<rparr>]"
    using assms(3,4)
    by (simp add: st' idn an emitNode_def file_add_def)
  have example: "(case onSchema 4 (examplePlugin cycleAB) refA schemaA emptyFile of
             Inr (e, st) \<Rightarrow> map (\<lambda>n. (cv_name n, cv_typeName n)) (nodes st)
           | Inl _ \<Rightarrow> [])
          = [(''zB'', Some (PropertyAccessExpression zIdentifier ''AnyZodObject'')),
             (''zA'', Some (PropertyAccessExpression zIdentifier ''AnyZodObject''))]"
    by code_simp
  from general example show ?thesis by blast
qed

theorem circular_declaration_is_annotated_witness:
  "\<exists>e st'. schemaToZodSchema (Suc 3) (examplePlugin cycleAB) (Some refA) None False schemaA emptyFile
             = Inr (e, st')
     \<and> fst (enter (examplePlugin cycleAB) (Some refA) None emptyFile)
         = Some \<lparr> id_name = ''zA'', id_created = True \<rparr>
     \<and> hasCircularReference st'
     \<and> (\<exists>ns comment.
           nodes st' = ns @ [\<lparr> cv_comment = comment, cv_exportConst = True,
                               cv_expression = e, cv_name = ''zA'',
                               cv_typeName = Some (PropertyAccessExpression zIdentifier
                                                     ''AnyZodObject'') \<rparr>])"
proof -
  have "(case schemaToZodSchema (Suc 3) (examplePlugin cycleAB) (Some refA) None False schemaA
                 emptyFile of
           Inr (e, st') \<Rightarrow> hasCircularReference st'
         | Inl _ \<Rightarrow> False)"
    by code_simp
  then obtain e st' where
    h1: "schemaToZodSchema (Suc 3) (examplePlugin cycleAB) (Some refA) None False schemaA emptyFile
           = Inr (e, st')"
    and hc: "hasCircularReference st'"
    by (auto split: sum.splits)
  have h2: "fst (enter (examplePlugin cycleAB) (Some refA) None emptyFile)
              = Some \<lparr> id_name = ''zA'', id_created = True \<rparr>"
    by code_simp
  have h3: "id_name \<lparr> id_name = ''zA'', id_created = True \<rparr> \<noteq> []" by simp
  have h4: "id_created \<lparr> id_name = ''zA'', id_created = True \<rparr>" by simp
  have t: "truthy (schema_ref schemaA) = False" "schema_type schemaA = Some TObject"
    by (simp_all add: schemaA_def no_attrs_def truthy_def)
  from circular_declaration_is_annotated [OF h1 h2 h3 h4] hc t h1 h2
  show ?thesis by auto
qed

section \<open>Properties of a traversal\<close>

lemma named_flag [simp]: "named (st \<lparr> hasCircularReference := b \<rparr>) = named st"
  by (simp add: named_def)

lemma good_flag [simp]: "good (st \<lparr> hasCircularReference := b \<rparr>) = good st"
  by (simp add: good_def)

lemma distinct_names_flag [simp]:
  "distinct_names (st \<lparr> hasCircularReference := b \<rparr>) = distinct_names st"
  by (simp add: distinct_names_def)

lemma closed_flag [simp]: "closed plugin (st \<lparr> hasCircularReference := b \<rparr>) = closed plugin st"
  by (simp add: closed_def)

lemma extends_flag [simp]: "extends st (st' \<lparr> hasCircularReference := b \<rparr>) = extends st st'"
  by (simp add: extends_def)

lemma carries_flag [simp]:
  "carries plugin c X st (st' \<lparr> hasCircularReference := b \<rparr>) = carries plugin c X st st'"
  by (simp add: carries_def)










































lemma leave_simps [simp]:
  "identifiers (leave ref st) = identifiers st"
  "nodes (leave ref st) = nodes st"
  "hasCircularReference (leave ref st) = hasCircularReference st"
  "circularReferenceTracker (leave ref st) = circularReferenceTracker st - ref_set ref"
  by (auto simp: leave_def ref_set_def split: option.splits)

lemma emitNode_simps [simp]:
  "identifiers (emitNode plugin idn schema anyType expression st) = identifiers st"
  "circularReferenceTracker (emitNode plugin idn schema anyType expression st)
     = circularReferenceTracker st"
  by (auto simp: emitNode_def file_add_def split: option.splits)











section \<open>Enough fuel\<close>

























section \<open>The stack and the declarations\<close>

























end
